theory Spec2Isabelle
  imports Complex_Main "HOL-Library.AList" "HOL-Library.Multiset"
begin

section \<open>Numbers and vectors\<close>

text \<open>
  TypeScript's \<open>number\<close> is modelled by \<^typ>\<open>real\<close>: the numbers of a packet and
  of a state are finite, and arithmetic on them is exact. The rounding of binary64,
  overflow, and what the program does with an infinite or NaN field of a packet are
  outside these definitions. Two parts of the program, whose outcome depends on them,
  are given a second time below: the movement step on numbers that can be infinite
  or NaN, and the phase state machine in binary64. Sequence numbers,
  tick counts and ball ids are integral in the program and are \<^typ>\<open>int\<close> and
  \<^typ>\<open>nat\<close> here.
\<close>

record Vector3 =
  vec_x :: real
  vec_y :: real
  vec_z :: real

definition vec :: "real \<Rightarrow> real \<Rightarrow> real \<Rightarrow> Vector3" where
  "vec a b c = \<lparr>vec_x = a, vec_y = b, vec_z = c\<rparr>"

definition add :: "Vector3 \<Rightarrow> Vector3 \<Rightarrow> Vector3" where
  "add u v = vec (vec_x u + vec_x v) (vec_y u + vec_y v) (vec_z u + vec_z v)"

definition sub :: "Vector3 \<Rightarrow> Vector3 \<Rightarrow> Vector3" where
  "sub u v = vec (vec_x u - vec_x v) (vec_y u - vec_y v) (vec_z u - vec_z v)"

definition multiplyScalar :: "Vector3 \<Rightarrow> real \<Rightarrow> Vector3" where
  "multiplyScalar v s = vec (vec_x v * s) (vec_y v * s) (vec_z v * s)"

definition divideScalar :: "Vector3 \<Rightarrow> real \<Rightarrow> Vector3" where
  "divideScalar v s = multiplyScalar v (1 / s)"

definition dot :: "Vector3 \<Rightarrow> Vector3 \<Rightarrow> real" where
  "dot u v = vec_x u * vec_x v + vec_y u * vec_y v + vec_z u * vec_z v"

definition vlength :: "Vector3 \<Rightarrow> real" where
  "vlength v = sqrt (vec_x v * vec_x v + vec_y v * vec_y v + vec_z v * vec_z v)"

text \<open>\<open>normalize\<close> divides by \<open>length() || 1\<close>: the zero vector stays zero.\<close>

definition normalize :: "Vector3 \<Rightarrow> Vector3" where
  "normalize v = divideScalar v (if vlength v = 0 then 1 else vlength v)"

definition distanceTo :: "Vector3 \<Rightarrow> Vector3 \<Rightarrow> real" where
  "distanceTo u v = vlength (sub u v)"

text \<open>\<open>Math.atan2 (a, b)\<close>: the angle of the point \<open>(b, a)\<close>, in \<open>(-\<pi>, \<pi>]\<close>.\<close>

definition atan2 :: "real \<Rightarrow> real \<Rightarrow> real" where
  "atan2 a b =
     (if 0 < b then arctan (a / b)
      else if b < 0 \<and> 0 \<le> a then arctan (a / b) + pi
      else if b < 0 then arctan (a / b) - pi
      else if 0 < a then pi / 2
      else if a < 0 then - (pi / 2)
      else 0)"

text \<open>The quotient of two numbers as JavaScript computes it.\<close>

datatype jsnum = Finite real | PosInfinity | NegInfinity | NaN

definition js_div :: "real \<Rightarrow> real \<Rightarrow> jsnum" where
  "js_div a b =
     (if b \<noteq> 0 then Finite (a / b)
      else if 0 < a then PosInfinity
      else if a < 0 then NegInfinity
      else NaN)"

definition TICK_RATE :: real where
  "TICK_RATE = 30"

definition TICK_DT :: real where
  "TICK_DT = 1 / TICK_RATE"

section \<open>The wire protocol\<close>

datatype Team = Blue | Red

datatype PlayerState = Alive | Out | Respawning

datatype BallState = Idle | Held | Thrown

datatype BallType = Normal | Curve | Lob

datatype MatchState = Warmup | Playing | Finished

datatype Mode = Casual | Ranked

record ThrowInput =
  active :: bool
  t_charge :: real
  curve :: real

record InputPacket =
  seq :: int
  in_timestamp :: real
  move_x :: real
  move_z :: real
  aim :: Vector3
  sprint :: bool
  block :: bool
  throw :: ThrowInput
  catching :: bool

text \<open>
  A \<open>GameEvent\<close> is \<open>{type, data, timestamp}\<close>; the three kinds the server emits are
  an elimination \<open>{playerId, by}\<close>, a catch \<open>{playerId, ballId}\<close> and a win \<open>{winner}\<close>.
\<close>

datatype GameEvent =
    Elimination string "string option" real
  | Catch string nat real
  | Win string real

record PlayerSnapshot =
  ps_id :: string
  ps_team :: Team
  ps_pos :: Vector3
  ps_vel :: Vector3
  ps_rot :: real
  ps_state :: PlayerState
  ps_stamina :: real
  ps_holding :: "nat option"
  ps_blocking :: bool
  ps_charge :: real

record BallSnapshot =
  bs_id :: nat
  bs_pos :: Vector3
  bs_vel :: Vector3
  bs_state :: BallState
  bs_owner :: "string option"
  bs_type :: BallType

record WorldSnapshot =
  ws_tick :: int
  ws_time :: real
  timestamp :: real
  ws_matchState :: MatchState
  ws_countdown :: real
  ws_players :: "PlayerSnapshot list"
  ws_balls :: "BallSnapshot list"
  ws_events :: "GameEvent list"

section \<open>The client: \<open>NetworkManager.getInterpolatedState\<close>\<close>

text \<open>
  The query returns \<open>null\<close>, a single snapshot, or \<open>{prev, next, fraction}\<close>.
\<close>

datatype InterpolatedState =
    Null
  | Single WorldSnapshot
  | Between WorldSnapshot WorldSnapshot jsnum

text \<open>
  The \<open>for\<close> loop: the first index \<open>i\<close> with
  \<open>snapshots[i].timestamp \<le> t \<le> snapshots[i+1].timestamp\<close>, if there is one.
\<close>

fun find_window :: "real \<Rightarrow> WorldSnapshot list \<Rightarrow> (WorldSnapshot \<times> WorldSnapshot) option" where
  "find_window t (a # b # rest) =
     (if timestamp a \<le> t \<and> timestamp b \<ge> t then Some (a, b)
      else find_window t (b # rest))"
| "find_window t [a] = None"
| "find_window t [] = None"

text \<open>
  \<open>now\<close> is the reading of \<open>Date.now()\<close>. The parameter \<open>renderTime\<close> is not read by
  the body: the time interpolated at is \<open>now + serverTimeOffset - 100\<close>.
\<close>

definition interpolationTime :: "real \<Rightarrow> real \<Rightarrow> real" where
  "interpolationTime now serverTimeOffset = (now + serverTimeOffset) - 100"

definition getInterpolatedState ::
  "real \<Rightarrow> real \<Rightarrow> WorldSnapshot list \<Rightarrow> real \<Rightarrow> InterpolatedState" where
  "getInterpolatedState now serverTimeOffset snapshots renderTime =
     (let t = interpolationTime now serverTimeOffset in
      case snapshots of
        prev0 # next0 # rest \<Rightarrow>
          (let (prev, next) =
                 (case find_window t snapshots of
                    Some w \<Rightarrow> w
                  | None \<Rightarrow> (prev0, next0))
           in if timestamp next < t then Single next
              else Between prev next
                     (js_div (t - timestamp prev) (timestamp next - timestamp prev)))
      | [a] \<Rightarrow> Null
      | [] \<Rightarrow> Null)"

text \<open>A snapshot that carries nothing but its timestamp, for concrete buffers.\<close>

definition snapshot_at :: "real \<Rightarrow> WorldSnapshot" where
  "snapshot_at ts =
     \<lparr>ws_tick = 0, ws_time = 180, timestamp = ts, ws_matchState = Playing,
      ws_countdown = 0, ws_players = [], ws_balls = [], ws_events = []\<rparr>"

section \<open>The server: \<open>Match\<close>\<close>

record ServerPlayer =
  pid :: string
  team :: Team
  pos :: Vector3
  vel :: Vector3
  rot :: real
  pstate :: PlayerState
  stamina :: real
  holding :: "nat option"
  blocking :: bool
  charge :: real
  lastInputSeq :: int
  inputBuffer :: "InputPacket list"

record ServerBall =
  bid :: nat
  bpos :: Vector3
  bvel :: Vector3
  bstate :: BallState
  owner :: "string option"
  btype :: BallType
  curveFactor :: real
  lastInteraction :: real

text \<open>
  The two \<open>Map\<close>s are association lists in insertion order, which is the order
  \<open>forEach\<close> visits them in; \<open>Map.get\<close> is \<^const>\<open>map_of\<close>, \<open>Map.set\<close> is
  \<^const>\<open>AList.update\<close> and \<open>Map.delete\<close> is \<^const>\<open>AList.delete\<close>.

  \<open>tickInterval\<close> is the handle \<open>setInterval\<close> returned, if \<open>start\<close> has run;
  \<open>timerRunning\<close> says whether the runtime still fires that interval, which is what
  \<open>clearInterval\<close> ends. \<open>sent\<close> is the trace of snapshots handed to
  \<open>socket.emit\<close>, with the recipient's id.
\<close>

record Match =
  match_id :: string
  mode :: Mode
  players :: "(string \<times> ServerPlayer) list"
  balls :: "(nat \<times> ServerBall) list"
  events :: "GameEvent list"
  tickInterval :: "nat option"
  timerRunning :: bool
  startTime :: real
  matchTime :: real
  tickCount :: int
  lastTickTime :: real
  matchState :: MatchState
  countdown :: real
  history :: "(int \<times> (string \<times> Vector3) list) list"
  sent :: "(string \<times> WorldSnapshot) list"

definition HISTORY_SIZE :: int where
  "HISTORY_SIZE = 30"

text \<open>
  A \<open>forEach\<close> whose callback updates the visited value and some state around it.
\<close>

fun forEach :: "('s \<Rightarrow> 'a \<Rightarrow> 's \<times> 'a) \<Rightarrow> 's \<Rightarrow> ('k \<times> 'a) list \<Rightarrow> 's \<times> ('k \<times> 'a) list" where
  "forEach f s [] = (s, [])"
| "forEach f s ((k, a) # rest) =
     (let (s1, a1) = f s a;
          (s2, rest2) = forEach f s1 rest
      in (s2, (k, a1) # rest2))"

subsection \<open>The constructor\<close>

text \<open>
  \<open>sockets\<close> are the socket ids; \<open>rnd i\<close> is the \<open>i\<close>-th value drawn from
  \<open>Math.random()\<close> by the call. The \<open>init\<close> message each socket is sent carries no
  state of the match and is left out.
\<close>

definition spawnZ :: "Team \<Rightarrow> real" where
  "spawnZ t = (if t = Blue then - 20 else 20)"

definition new_player :: "string \<Rightarrow> nat \<Rightarrow> real \<Rightarrow> ServerPlayer" where
  "new_player sid index r =
     (let t = (if index mod 2 = 0 then Blue else Red) in
      \<lparr>pid = sid, team = t,
       pos = vec ((r - 0.5) * 20) 1.05 (spawnZ t),
       vel = vec 0 0 0,
       rot = (if t = Blue then pi else 0),
       pstate = Alive, stamina = 100, holding = None, blocking = False,
       charge = 0, lastInputSeq = 0, inputBuffer = []\<rparr>)"

fun init_players ::
  "(nat \<Rightarrow> real) \<Rightarrow> nat \<Rightarrow> string list \<Rightarrow> (string \<times> ServerPlayer) list \<Rightarrow> (string \<times> ServerPlayer) list" where
  "init_players rnd index [] ps = ps"
| "init_players rnd index (sid # rest) ps =
     init_players rnd (Suc index) rest (AList.update sid (new_player sid index (rnd index)) ps)"

definition new_ball :: "nat \<Rightarrow> ServerBall" where
  "new_ball i =
     \<lparr>bid = i, bpos = vec ((real i - 2.5) * 5) 0.5 0, bvel = vec 0 0 0,
      bstate = Idle, owner = None, btype = Normal, curveFactor = 0,
      lastInteraction = 0\<rparr>"

definition new_Match :: "string \<Rightarrow> Mode \<Rightarrow> string list \<Rightarrow> (nat \<Rightarrow> real) \<Rightarrow> Match" where
  "new_Match i md sockets rnd =
     \<lparr>match_id = i, mode = md,
      players = init_players rnd 0 sockets [],
      balls = map (\<lambda>k. (k, new_ball k)) [0..<6],
      events = [],
      tickInterval = None, timerRunning = False,
      startTime = 0, matchTime = 180, tickCount = 0, lastTickTime = 0,
      matchState = Warmup, countdown = 5,
      history = [], sent = []\<rparr>"

subsection \<open>The \<open>input\<close> listener\<close>

text \<open>
  \<open>Array.prototype.sort\<close> with the comparator \<open>a.seq - b.seq\<close> is a stable sort by
  \<open>seq\<close>, as \<^const>\<open>sort_key\<close> is.
\<close>

definition on_input :: "string \<Rightarrow> InputPacket \<Rightarrow> Match \<Rightarrow> Match" where
  "on_input sid packet m =
     (case map_of (players m) sid of
        None \<Rightarrow> m
      | Some p \<Rightarrow>
          if seq packet > lastInputSeq p
          then m\<lparr>players :=
                   AList.update sid
                     (p\<lparr>inputBuffer := sort_key seq (inputBuffer p @ [packet])\<rparr>)
                     (players m)\<rparr>
          else m)"

subsection \<open>\<open>start\<close>, \<open>stop\<close>, \<open>isFinished\<close>, \<open>removePlayer\<close>\<close>

definition start :: "real \<Rightarrow> nat \<Rightarrow> Match \<Rightarrow> Match" where
  "start now handle m =
     m\<lparr>startTime := now, lastTickTime := now,
       tickInterval := Some handle, timerRunning := True\<rparr>"

definition stop :: "Match \<Rightarrow> Match" where
  "stop m = (if tickInterval m \<noteq> None then m\<lparr>timerRunning := False\<rparr> else m)"

definition isFinished :: "Match \<Rightarrow> bool" where
  "isFinished m = (matchTime m \<le> 0 \<or> length (players m) = 0)"

definition drop_ball :: "string \<Rightarrow> ServerBall \<Rightarrow> ServerBall" where
  "drop_ball sid b =
     (if owner b = Some sid
      then b\<lparr>bstate := Idle, owner := None, bvel := vec 0 0 0\<rparr>
      else b)"

definition removePlayer :: "real \<Rightarrow> string \<Rightarrow> Match \<Rightarrow> Match" where
  "removePlayer now sid m =
     (let m1 = (case map_of (players m) sid of
                  None \<Rightarrow> m
                | Some p \<Rightarrow>
                    m\<lparr>players := AList.update sid (p\<lparr>pstate := Out\<rparr>) (players m),
                      events := events m @ [Elimination sid (Some ''disconnect'') now]\<rparr>);
          m2 = m1\<lparr>balls := map (\<lambda>(k, b). (k, drop_ball sid b)) (balls m1)\<rparr>
      in m2\<lparr>players := AList.delete sid (players m2)\<rparr>)"

subsection \<open>\<open>respawnAll\<close>\<close>

definition respawn_player :: "real \<Rightarrow> ServerPlayer \<Rightarrow> ServerPlayer" where
  "respawn_player r p =
     p\<lparr>pos := vec ((r - 0.5) * 20) 1.05 (spawnZ (team p)),
       vel := vec 0 0 0, pstate := Alive, stamina := 100, holding := None\<rparr>"

fun respawn_players ::
  "(nat \<Rightarrow> real) \<Rightarrow> nat \<Rightarrow> (string \<times> ServerPlayer) list \<Rightarrow> (string \<times> ServerPlayer) list" where
  "respawn_players rnd index [] = []"
| "respawn_players rnd index ((k, p) # rest) =
     (k, respawn_player (rnd index) p) # respawn_players rnd (Suc index) rest"

definition respawn_ball :: "ServerBall \<Rightarrow> ServerBall" where
  "respawn_ball b =
     b\<lparr>bstate := Idle, owner := None, bvel := vec 0 0 0,
       bpos := vec ((real (bid b) - 2.5) * 5) 0.5 0\<rparr>"

definition respawnAll :: "(nat \<Rightarrow> real) \<Rightarrow> Match \<Rightarrow> Match" where
  "respawnAll rnd m =
     m\<lparr>players := respawn_players rnd 0 (players m),
       balls := map (\<lambda>(k, b). (k, respawn_ball b)) (balls m)\<rparr>"

subsection \<open>\<open>throwBall\<close>\<close>

text \<open>
  The caller guarantees \<open>p.holding !== null\<close>; a held id with no ball in the map
  returns at once, and so does the model for \<open>holding = None\<close>.
\<close>

definition throw_speed :: "ThrowInput \<Rightarrow> real" where
  "throw_speed ti = 25 + t_charge ti * 25"

definition throwBall ::
  "ServerPlayer \<Rightarrow> ThrowInput \<Rightarrow> (nat \<times> ServerBall) list \<Rightarrow> ServerPlayer \<times> (nat \<times> ServerBall) list" where
  "throwBall p ti bs =
     (case holding p of
        None \<Rightarrow> (p, bs)
      | Some h \<Rightarrow>
          (case map_of bs h of
             None \<Rightarrow> (p, bs)
           | Some b \<Rightarrow>
               (let aimDir = normalize (vec (sin (rot p)) 0 (cos (rot p)));
                    speed = throw_speed ti;
                    v = multiplyScalar aimDir speed;
                    b1 = b\<lparr>bstate := Thrown, owner := Some (pid p),
                           bpos := add (pos p) (vec 0 1.5 0),
                           bvel := v\<lparr>vec_y := 2 + t_charge ti * 5\<rparr>,
                           btype := (if \<bar>curve ti\<bar> > 0.5 then Curve else Normal),
                           curveFactor := curve ti\<rparr>
                in (p\<lparr>holding := None\<rparr>, AList.update h b1 bs))))"

subsection \<open>\<open>tryCatch\<close>\<close>

text \<open>
  The callback of \<open>balls.forEach\<close>: its state is the flag \<open>caught\<close>, the player and
  the event list.
\<close>

definition catch_ball ::
  "real \<Rightarrow> bool \<times> ServerPlayer \<times> GameEvent list \<Rightarrow> ServerBall \<Rightarrow>
   (bool \<times> ServerPlayer \<times> GameEvent list) \<times> ServerBall" where
  "catch_ball now s b =
     (case s of (caught, p, es) \<Rightarrow>
        if caught then (s, b)
        else if bstate b = Thrown \<and> owner b \<noteq> Some (pid p) then
          (if distanceTo (pos p) (bpos b) < 3.0
              \<and> dot (vec (sin (rot p)) 0 (cos (rot p)))
                     (normalize (sub (bpos b) (pos p))) > 0.5
           then ((True, p\<lparr>holding := Some (bid b)\<rparr>, es @ [Catch (pid p) (bid b) now]),
                 b\<lparr>bstate := Held, owner := Some (pid p), bvel := vec 0 0 0\<rparr>)
           else (s, b))
        else if bstate b = Idle \<and> holding p = None then
          (if distanceTo (pos p) (bpos b) < 2.0
           then ((True, p\<lparr>holding := Some (bid b)\<rparr>, es),
                 b\<lparr>bstate := Held, owner := Some (pid p)\<rparr>)
           else (s, b))
        else (s, b))"

definition tryCatch ::
  "real \<Rightarrow> ServerPlayer \<Rightarrow> (nat \<times> ServerBall) list \<Rightarrow> GameEvent list \<Rightarrow>
   ServerPlayer \<times> (nat \<times> ServerBall) list \<times> GameEvent list" where
  "tryCatch now p bs es =
     (case forEach (catch_ball now) (False, p, es) bs of
        ((caught, p1, es1), bs1) \<Rightarrow> (p1, bs1, es1))"

subsection \<open>\<open>tick\<close>, step 0: the phase state machine\<close>

text \<open>
  \<open>now\<close> is the reading of \<open>Date.now()\<close> during the tick, and \<open>rnd\<close> the values
  \<open>respawnAll\<close> draws from \<open>Math.random()\<close>.
\<close>

definition phase_update :: "(nat \<Rightarrow> real) \<Rightarrow> real \<Rightarrow> Match \<Rightarrow> Match" where
  "phase_update rnd now m =
     (if matchState m = Warmup then
        (let m1 = m\<lparr>countdown := countdown m - TICK_DT\<rparr> in
         if countdown m1 \<le> 0
         then respawnAll rnd (m1\<lparr>matchState := Playing, countdown := 0\<rparr>)
         else m1)
      else if matchState m = Playing then
        (let m1 = m\<lparr>matchTime := matchTime m - TICK_DT\<rparr> in
         if matchTime m1 \<le> 0
         then stop (m1\<lparr>matchState := Finished,
                       events := events m1 @ [Win ''draw'' now]\<rparr>)
         else m1)
      else m)"

subsection \<open>\<open>tick\<close>, step 1: inputs\<close>

text \<open>
  The body of the \<open>while\<close> loop, after \<open>shift()\<close> has taken \<open>input\<close> off the buffer.
  It works on the player, the balls and the event list.
\<close>

definition move_player :: "InputPacket \<Rightarrow> ServerPlayer \<Rightarrow> ServerPlayer" where
  "move_player input p =
     (let speed = (if sprint input \<and> stamina p > 0 then 15 else 8 :: real);
          moveDir = normalize (vec (move_x input) 0 (move_z input));
          v = (vel p)\<lparr>vec_x := vec_x moveDir * speed, vec_z := vec_z moveDir * speed\<rparr>;
          q = add (pos p) (multiplyScalar v TICK_DT);
          limit = 30;
          q1 = q\<lparr>vec_x := max (- limit) (min limit (vec_x q))\<rparr>;
          q2 = q1\<lparr>vec_z := max (- limit) (min limit (vec_z q1))\<rparr>
      in p\<lparr>vel := v, pos := q2, rot := atan2 (vec_x (aim input)) (vec_z (aim input))\<rparr>)"

definition update_stamina :: "InputPacket \<Rightarrow> ServerPlayer \<Rightarrow> ServerPlayer" where
  "update_stamina input p =
     (if sprint input then p\<lparr>stamina := max 0 (stamina p - 10 * TICK_DT)\<rparr>
      else p\<lparr>stamina := min 100 (stamina p + 5 * TICK_DT)\<rparr>)"

definition apply_input ::
  "real \<Rightarrow> InputPacket \<Rightarrow> ServerPlayer \<times> (nat \<times> ServerBall) list \<times> GameEvent list \<Rightarrow>
   ServerPlayer \<times> (nat \<times> ServerBall) list \<times> GameEvent list" where
  "apply_input now input s =
     (case s of (p0, bs, es) \<Rightarrow>
        (let p1 = p0\<lparr>lastInputSeq := seq input\<rparr> in
         if pstate p1 \<noteq> Alive then (p1, bs, es)
         else
           (let p2 = move_player input p1;
                (p3, bs3) = (if active (throw input) \<and> holding p2 \<noteq> None
                             then throwBall p2 (throw input) bs else (p2, bs));
                (p4, bs4, es4) = (if catching input then tryCatch now p3 bs3 es
                                  else (p3, bs3, es))
            in (update_stamina input p4, bs4, es4))))"

text \<open>
  The \<open>while (p.inputBuffer.length > 0)\<close> loop. It ends because the body leaves the
  buffer alone, so every round makes it one shorter.
\<close>

function drain ::
  "real \<Rightarrow> ServerPlayer \<times> (nat \<times> ServerBall) list \<times> GameEvent list \<Rightarrow>
   ServerPlayer \<times> (nat \<times> ServerBall) list \<times> GameEvent list" where
  "drain now (p, bs, es) =
     (case inputBuffer p of
        [] \<Rightarrow> (p, bs, es)
      | input # rest \<Rightarrow> drain now (apply_input now input (p\<lparr>inputBuffer := rest\<rparr>, bs, es)))"
  by pat_completeness auto
termination
proof (relation "measure (\<lambda>(now, p, bs, es). length (inputBuffer p))")
  show "wf (measure (\<lambda>(now, p, bs, es). length (inputBuffer p)))"
    by simp
next
  fix now :: real and p :: ServerPlayer and bs :: "(nat \<times> ServerBall) list"
    and es :: "GameEvent list" and input rest
  assume buf: "inputBuffer p = input # rest"
  have caught: "inputBuffer (fst (snd (fst (forEach (catch_ball now) (c, q, es0) bs0))))
                  = inputBuffer q"
    for c q es0 and bs0 :: "(nat \<times> ServerBall) list"
  proof (induction bs0 arbitrary: c q es0)
    case Nil
    show ?case by simp
  next
    case (Cons kb bs0)
    obtain k b where kb: "kb = (k, b)" by (cases kb)
    obtain c1 q1 es1 b1 where step: "catch_ball now (c, q, es0) b = ((c1, q1, es1), b1)"
      by (metis prod_cases3 surj_pair)
    from step have "inputBuffer q1 = inputBuffer q"
      by (auto simp: catch_ball_def split: if_splits)
    with Cons.IH [of c1 q1 es1] show ?case
      by (simp add: kb step split_beta Let_def)
  qed
  have tried: "inputBuffer (fst (tryCatch now q bs0 es0)) = inputBuffer q" for q bs0 es0
    using caught [of False q es0 bs0] by (simp add: tryCatch_def split_beta)
  have thrown: "inputBuffer (fst (throwBall q ti bs0)) = inputBuffer q" for q ti bs0
    by (simp add: throwBall_def Let_def split: option.splits)
  have "inputBuffer (fst (apply_input now input (p\<lparr>inputBuffer := rest\<rparr>, bs, es))) = rest"
    by (auto simp: apply_input_def Let_def split_beta tried thrown move_player_def
        update_stamina_def)
  with buf
  show "((now, apply_input now input (p\<lparr>inputBuffer := rest\<rparr>, bs, es)), now, p, bs, es)
        \<in> measure (\<lambda>(now, p, bs, es). length (inputBuffer p))"
    by (simp add: split_beta)
qed

declare drain.simps [simp del]

text \<open>\<open>players.forEach\<close> around the loop: its state is the balls and the events.\<close>

definition drain_player ::
  "real \<Rightarrow> (nat \<times> ServerBall) list \<times> GameEvent list \<Rightarrow> ServerPlayer \<Rightarrow>
   ((nat \<times> ServerBall) list \<times> GameEvent list) \<times> ServerPlayer" where
  "drain_player now s p =
     (case s of (bs, es) \<Rightarrow>
        (case drain now (p, bs, es) of (p1, bs1, es1) \<Rightarrow> ((bs1, es1), p1)))"

definition process_inputs :: "real \<Rightarrow> Match \<Rightarrow> Match" where
  "process_inputs now m =
     (case forEach (drain_player now) (balls m, events m) (players m) of
        ((bs, es), ps) \<Rightarrow> m\<lparr>players := ps, balls := bs, events := es\<rparr>)"

subsection \<open>\<open>checkHits\<close>\<close>

text \<open>
  The callback of \<open>players.forEach\<close>: its state is the ball and the event list. The
  loop goes on after a hit, so one pass can eliminate several players.
\<close>

definition hit_player ::
  "real \<Rightarrow> ServerBall \<times> GameEvent list \<Rightarrow> ServerPlayer \<Rightarrow>
   (ServerBall \<times> GameEvent list) \<times> ServerPlayer" where
  "hit_player now s p =
     (case s of (b, es) \<Rightarrow>
        if Some (pid p) = owner b \<or> pstate p \<noteq> Alive then (s, p)
        else if distanceTo (pos p) (bpos b) < 1.0
        then ((b\<lparr>bstate := Idle,
                  bvel := (multiplyScalar (bvel b) 0.2)\<lparr>vec_y := 5\<rparr>\<rparr>,
               es @ [Elimination (pid p) (owner b) now]),
              p\<lparr>pstate := Out\<rparr>)
        else (s, p))"

definition checkHits ::
  "real \<Rightarrow> ServerBall \<Rightarrow> (string \<times> ServerPlayer) list \<Rightarrow> GameEvent list \<Rightarrow>
   ServerBall \<times> (string \<times> ServerPlayer) list \<times> GameEvent list" where
  "checkHits now b ps es =
     (case forEach (hit_player now) (b, es) ps of
        ((b1, es1), ps1) \<Rightarrow> (b1, ps1, es1))"

subsection \<open>\<open>tick\<close>, step 2: the balls\<close>

definition gravity :: "ServerBall \<Rightarrow> ServerBall" where
  "gravity b =
     (if vec_y (bpos b) > 0.35
      then b\<lparr>bvel := (bvel b)\<lparr>vec_y := vec_y (bvel b) - 15 * TICK_DT\<rparr>\<rparr>
      else b)"

definition move_ball :: "ServerBall \<Rightarrow> ServerBall" where
  "move_ball b = b\<lparr>bpos := add (bpos b) (multiplyScalar (bvel b) TICK_DT)\<rparr>"

definition floor_bounce :: "ServerBall \<Rightarrow> ServerBall" where
  "floor_bounce b =
     (if vec_y (bpos b) < 0.35 then
        (let b1 = b\<lparr>bpos := (bpos b)\<lparr>vec_y := 0.35\<rparr>,
                    bvel := vec (vec_x (bvel b) * 0.9) (vec_y (bvel b) * (- 0.6))
                                (vec_z (bvel b) * 0.9)\<rparr>
         in if bstate b1 = Thrown
            then b1\<lparr>bstate := Idle, owner := None, btype := Normal\<rparr>
            else b1)
      else b)"

definition wall_bounce_x :: "ServerBall \<Rightarrow> ServerBall" where
  "wall_bounce_x b =
     (if \<bar>vec_x (bpos b)\<bar> > 29
      then b\<lparr>bpos := (bpos b)\<lparr>vec_x := sgn (vec_x (bpos b)) * 29\<rparr>,
             bvel := (bvel b)\<lparr>vec_x := vec_x (bvel b) * (- 0.6)\<rparr>,
             bstate := Idle\<rparr>
      else b)"

definition wall_bounce_z :: "ServerBall \<Rightarrow> ServerBall" where
  "wall_bounce_z b =
     (if \<bar>vec_z (bpos b)\<bar> > 29
      then b\<lparr>bpos := (bpos b)\<lparr>vec_z := sgn (vec_z (bpos b)) * 29\<rparr>,
             bvel := (bvel b)\<lparr>vec_z := vec_z (bvel b) * (- 0.6)\<rparr>,
             bstate := Idle\<rparr>
      else b)"

definition free_flight :: "ServerBall \<Rightarrow> ServerBall" where
  "free_flight b = wall_bounce_z (wall_bounce_x (floor_bounce (move_ball (gravity b))))"

text \<open>
  The callback of \<open>balls.forEach\<close>: its state is the players and the event list. In
  \<open>b.state === 'held' && b.owner\<close> the empty string counts as no owner.
\<close>

definition simulate_ball ::
  "real \<Rightarrow> (string \<times> ServerPlayer) list \<times> GameEvent list \<Rightarrow> ServerBall \<Rightarrow>
   ((string \<times> ServerPlayer) list \<times> GameEvent list) \<times> ServerBall" where
  "simulate_ball now s b =
     (case s of (ps, es) \<Rightarrow>
        if bstate b = Thrown \<or> bstate b = Idle then
          (let b1 = free_flight b in
           if bstate b1 = Thrown \<and> vlength (bvel b1) > 5
           then (case checkHits now b1 ps es of (b2, ps2, es2) \<Rightarrow> ((ps2, es2), b2))
           else (s, b1))
        else if bstate b = Held then
          (case owner b of
             None \<Rightarrow> (s, b)
           | Some ow \<Rightarrow>
               if ow = [] then (s, b)
               else (case map_of ps ow of
                       Some p \<Rightarrow> (s, b\<lparr>bpos := add (pos p) (vec 0 1 0)\<rparr>)
                     | None \<Rightarrow> (s, b\<lparr>bstate := Idle, owner := None\<rparr>)))
        else (s, b))"

definition simulate_balls :: "real \<Rightarrow> Match \<Rightarrow> Match" where
  "simulate_balls now m =
     (case forEach (simulate_ball now) (players m, events m) (balls m) of
        ((ps, es), bs) \<Rightarrow> m\<lparr>players := ps, balls := bs, events := es\<rparr>)"

subsection \<open>\<open>tick\<close>, steps 3 and 4: history and broadcast\<close>

definition store_history :: "Match \<Rightarrow> Match" where
  "store_history m =
     (let snapshot = foldl (\<lambda>acc (k, p). AList.update (pid p) (pos p) acc) [] (players m);
          h = AList.update (tickCount m) snapshot (history m)
      in m\<lparr>history := (if int (length h) > HISTORY_SIZE
                        then AList.delete (tickCount m - HISTORY_SIZE) h else h)\<rparr>)"

definition player_snapshot :: "ServerPlayer \<Rightarrow> PlayerSnapshot" where
  "player_snapshot p =
     \<lparr>ps_id = pid p, ps_team = team p, ps_pos = pos p, ps_vel = vel p, ps_rot = rot p,
      ps_state = pstate p, ps_stamina = stamina p, ps_holding = holding p,
      ps_blocking = blocking p, ps_charge = charge p\<rparr>"

definition ball_snapshot :: "ServerBall \<Rightarrow> BallSnapshot" where
  "ball_snapshot b =
     \<lparr>bs_id = bid b, bs_pos = bpos b, bs_vel = bvel b, bs_state = bstate b,
      bs_owner = owner b, bs_type = btype b\<rparr>"

definition world_snapshot :: "real \<Rightarrow> Match \<Rightarrow> WorldSnapshot" where
  "world_snapshot now m =
     \<lparr>ws_tick = tickCount m, ws_time = matchTime m, timestamp = now,
      ws_matchState = matchState m, ws_countdown = countdown m,
      ws_players = map (\<lambda>(k, p). player_snapshot p) (players m),
      ws_balls = map (\<lambda>(k, b). ball_snapshot b) (balls m),
      ws_events = events m\<rparr>"

definition broadcastSnapshot :: "real \<Rightarrow> Match \<Rightarrow> Match" where
  "broadcastSnapshot now m =
     m\<lparr>sent := sent m @ map (\<lambda>(k, p). (k, world_snapshot now m)) (players m),
       events := []\<rparr>"

subsection \<open>\<open>tick\<close>\<close>

definition tick :: "(nat \<Rightarrow> real) \<Rightarrow> real \<Rightarrow> Match \<Rightarrow> Match" where
  "tick rnd now m =
     (let m0 = m\<lparr>tickCount := tickCount m + 1\<rparr>;
          m1 = phase_update rnd now m0;
          m2 = process_inputs now m1;
          m3 = simulate_balls now m2;
          m4 = store_history m3
      in if tickCount m4 mod 2 = 0 then broadcastSnapshot now m4 else m4)"

section \<open>Runs of a match\<close>

text \<open>
  What happens to a match once it is built: the timer fires \<open>tick\<close>, a socket
  delivers an \<open>input\<close> packet, or the manager calls \<open>removePlayer\<close>.
\<close>

datatype Action =
    Tick "nat \<Rightarrow> real" real
  | Input string InputPacket
  | Remove real string

fun exec :: "Match \<Rightarrow> Action \<Rightarrow> Match" where
  "exec m (Tick rnd now) = tick rnd now m"
| "exec m (Input sid packet) = on_input sid packet m"
| "exec m (Remove now sid) = removePlayer now sid m"

definition run :: "Match \<Rightarrow> Action list \<Rightarrow> Match" where
  "run m acts = foldl exec m acts"

section \<open>Properties of a state\<close>

text \<open>A ball that is held or in flight has an owner.\<close>

definition ball_owned :: "ServerBall \<Rightarrow> bool" where
  "ball_owned b = (bstate b = Idle \<or> owner b \<noteq> None)"

definition balls_owned :: "Match \<Rightarrow> bool" where
  "balls_owned m = list_all (\<lambda>(k, b). ball_owned b) (balls m)"

text \<open>How many balls of \<open>bs\<close> are not held where the same ball of \<open>bs1\<close> is.\<close>

definition newly_held :: "(nat \<times> ServerBall) list \<Rightarrow> (nat \<times> ServerBall) list \<Rightarrow> nat" where
  "newly_held bs bs1 =
     length (filter (\<lambda>((k, b), (k1, b1)). bstate b \<noteq> Held \<and> bstate b1 = Held) (zip bs bs1))"

definition changed :: "(nat \<times> ServerBall) list \<Rightarrow> (nat \<times> ServerBall) list \<Rightarrow> nat" where
  "changed bs bs1 = length (filter (\<lambda>(kb, kb1). kb \<noteq> kb1) (zip bs bs1))"

text \<open>
  The tie-break of the specification: the team with more surviving players wins, and
  equal counts are a draw.
\<close>

definition survivors :: "Team \<Rightarrow> (string \<times> ServerPlayer) list \<Rightarrow> nat" where
  "survivors t ps = length (filter (\<lambda>(k, p). team p = t \<and> pstate p = Alive) ps)"

definition tie_break_winner :: "(string \<times> ServerPlayer) list \<Rightarrow> string" where
  "tie_break_winner ps =
     (if survivors Blue ps > survivors Red ps then ''blue''
      else if survivors Red ps > survivors Blue ps then ''red''
      else ''draw'')"

text \<open>
  What every ball of a match satisfies: it has an owner unless it is idle, and its
  id is one of the six the constructor gives out.
\<close>

definition ball_inv :: "ServerBall \<Rightarrow> bool" where
  "ball_inv b = (ball_owned b \<and> bid b < 6)"






section \<open>The movement step on JavaScript numbers\<close>

text \<open>
  A field of a packet is a \<open>number\<close>, and the listener checks \<open>seq\<close> only: \<open>move.x\<close>
  and \<open>move.z\<close> can be infinite or NaN. Here is the movement step of the loop body
  once more, on numbers that can be: the arithmetic of \<open>*\<close>, \<open>+\<close>, \<open>1 / s\<close>,
  \<open>Math.sqrt\<close>, \<open>s || 1\<close>, \<open>Math.min\<close>, \<open>Math.max\<close> and \<open><=\<close> on them. A finite result
  is not rounded, and the two zeros are one.
\<close>

definition signed_infinity :: "real \<Rightarrow> jsnum" where
  "signed_infinity s = (if s = 0 then NaN else if 0 < s then PosInfinity else NegInfinity)"

fun js_mul :: "jsnum \<Rightarrow> jsnum \<Rightarrow> jsnum" where
  "js_mul NaN b = NaN"
| "js_mul a NaN = NaN"
| "js_mul (Finite x) (Finite y) = Finite (x * y)"
| "js_mul (Finite x) PosInfinity = signed_infinity x"
| "js_mul (Finite x) NegInfinity = signed_infinity (- x)"
| "js_mul PosInfinity (Finite y) = signed_infinity y"
| "js_mul NegInfinity (Finite y) = signed_infinity (- y)"
| "js_mul PosInfinity PosInfinity = PosInfinity"
| "js_mul NegInfinity NegInfinity = PosInfinity"
| "js_mul PosInfinity NegInfinity = NegInfinity"
| "js_mul NegInfinity PosInfinity = NegInfinity"

fun js_add :: "jsnum \<Rightarrow> jsnum \<Rightarrow> jsnum" where
  "js_add NaN b = NaN"
| "js_add a NaN = NaN"
| "js_add (Finite x) (Finite y) = Finite (x + y)"
| "js_add PosInfinity NegInfinity = NaN"
| "js_add NegInfinity PosInfinity = NaN"
| "js_add (Finite x) b = b"
| "js_add a b = a"

fun js_sqrt :: "jsnum \<Rightarrow> jsnum" where
  "js_sqrt (Finite x) = (if x < 0 then NaN else Finite (sqrt x))"
| "js_sqrt PosInfinity = PosInfinity"
| "js_sqrt a = NaN"

text \<open>\<open>1 / s\<close>.\<close>

fun js_inverse :: "jsnum \<Rightarrow> jsnum" where
  "js_inverse (Finite x) = js_div 1 x"
| "js_inverse NaN = NaN"
| "js_inverse a = Finite 0"

text \<open>\<open>s || 1\<close>: zero and NaN are the numbers that count as false.\<close>

fun js_or_1 :: "jsnum \<Rightarrow> jsnum" where
  "js_or_1 (Finite x) = (if x = 0 then Finite 1 else Finite x)"
| "js_or_1 NaN = Finite 1"
| "js_or_1 a = a"

text \<open>\<open>a <= b\<close> is false when one of the two is NaN.\<close>

fun js_le :: "jsnum \<Rightarrow> jsnum \<Rightarrow> bool" where
  "js_le NaN b = False"
| "js_le a NaN = False"
| "js_le (Finite x) (Finite y) = (x \<le> y)"
| "js_le NegInfinity b = True"
| "js_le a PosInfinity = True"
| "js_le a b = False"

text \<open>\<open>Math.min\<close> and \<open>Math.max\<close> return NaN when one of the two is NaN.\<close>

fun js_min :: "jsnum \<Rightarrow> jsnum \<Rightarrow> jsnum" where
  "js_min NaN b = NaN"
| "js_min a NaN = NaN"
| "js_min a b = (if js_le a b then a else b)"

fun js_max :: "jsnum \<Rightarrow> jsnum \<Rightarrow> jsnum" where
  "js_max NaN b = NaN"
| "js_max a NaN = NaN"
| "js_max a b = (if js_le a b then b else a)"

record JsVector3 =
  js_x :: jsnum
  js_y :: jsnum
  js_z :: jsnum

definition js_vec :: "jsnum \<Rightarrow> jsnum \<Rightarrow> jsnum \<Rightarrow> JsVector3" where
  "js_vec a b c = \<lparr>js_x = a, js_y = b, js_z = c\<rparr>"

definition js_vec_add :: "JsVector3 \<Rightarrow> JsVector3 \<Rightarrow> JsVector3" where
  "js_vec_add u v = js_vec (js_add (js_x u) (js_x v)) (js_add (js_y u) (js_y v))
     (js_add (js_z u) (js_z v))"

definition js_multiplyScalar :: "JsVector3 \<Rightarrow> jsnum \<Rightarrow> JsVector3" where
  "js_multiplyScalar v s = js_vec (js_mul (js_x v) s) (js_mul (js_y v) s) (js_mul (js_z v) s)"

definition js_divideScalar :: "JsVector3 \<Rightarrow> jsnum \<Rightarrow> JsVector3" where
  "js_divideScalar v s = js_multiplyScalar v (js_inverse s)"

definition js_length :: "JsVector3 \<Rightarrow> jsnum" where
  "js_length v =
     js_sqrt (js_add (js_add (js_mul (js_x v) (js_x v)) (js_mul (js_y v) (js_y v)))
       (js_mul (js_z v) (js_z v)))"

definition js_normalize :: "JsVector3 \<Rightarrow> JsVector3" where
  "js_normalize v = js_divideScalar v (js_or_1 (js_length v))"

text \<open>
  The movement of the loop body, from \<open>speed\<close> to the clamp, on the position and the
  velocity of the player: \<open>mx\<close> and \<open>mz\<close> are \<open>input.move.x\<close> and \<open>input.move.z\<close>, and
  \<open>fast\<close> is \<open>input.sprint && p.stamina > 0\<close>.
\<close>

definition js_move ::
  "jsnum \<Rightarrow> jsnum \<Rightarrow> bool \<Rightarrow> JsVector3 \<times> JsVector3 \<Rightarrow> JsVector3 \<times> JsVector3" where
  "js_move mx mz fast s =
     (case s of (p, v0) \<Rightarrow>
        (let speed = Finite (if fast then 15 else 8);
             moveDir = js_normalize (js_vec mx (Finite 0) mz);
             v = v0\<lparr>js_x := js_mul (js_x moveDir) speed, js_z := js_mul (js_z moveDir) speed\<rparr>;
             q = js_vec_add p (js_multiplyScalar v (Finite TICK_DT));
             limit = Finite 30;
             q1 = q\<lparr>js_x := js_max (Finite (- 30)) (js_min limit (js_x q))\<rparr>;
             q2 = q1\<lparr>js_z := js_max (Finite (- 30)) (js_min limit (js_z q1))\<rparr>
         in (q2, v)))"

text \<open>The position is within the arena bounds.\<close>

definition js_in_arena :: "JsVector3 \<Rightarrow> bool" where
  "js_in_arena q =
     (js_le (Finite (- 30)) (js_x q) \<and> js_le (js_x q) (Finite 30)
      \<and> js_le (Finite (- 30)) (js_z q) \<and> js_le (js_z q) (Finite 30))"

text \<open>A vector of finite numbers.\<close>

definition js_of :: "Vector3 \<Rightarrow> JsVector3" where
  "js_of v = js_vec (Finite (vec_x v)) (Finite (vec_y v)) (Finite (vec_z v))"

section \<open>The phase state machine in binary64\<close>

text \<open>
  The program's numbers are IEEE 754 binary64, and \<open>-=\<close> rounds the exact difference
  to the nearest of them, ties to even. The countdown starts at 5, the match time at
  180, and \<open>TICK_DT\<close> is the binary64 number nearest to \<open>1/30\<close>. Every number that
  occurs is a multiple of \<open>2^-57\<close>, so here the integer \<open>n\<close> stands for the number
  \<open>n \<cdot> 2^-57\<close>; such a number is a binary64 number when \<open>n\<close> has at most 53
  significant bits.

  \<open>ulp a\<close> is the distance of neighbouring binary64 numbers at the magnitude \<open>a\<close>, and
  \<open>round53\<close> rounds to a multiple of it.
\<close>

function ulp :: "nat \<Rightarrow> nat" where
  "ulp a = (if a < 2 ^ 53 then 1 else 2 * ulp (a div 2))"
  by pat_completeness auto
termination
  by (relation "measure id") auto

declare ulp.simps [simp del]

definition round53 :: "int \<Rightarrow> int" where
  "round53 n =
     (let a = nat \<bar>n\<bar>;
          u = ulp a;
          q = a div u;
          r = a mod u;
          q1 = (if 2 * r > u \<or> (2 * r = u \<and> odd q) then q + 1 else q)
      in sgn n * int (q1 * u))"

definition f64_sub :: "int \<Rightarrow> int \<Rightarrow> int" where
  "f64_sub a b = round53 (a - b)"

text \<open>
  \<open>1/30\<close> lies between \<open>2^-5\<close> and \<open>2^-4\<close>, where neighbouring binary64 numbers are
  \<open>2^-57\<close> apart: \<open>TICK_DT\<close> is the integer nearest to \<open>2^57 / 30\<close>.
\<close>

definition TICK_DT_f64 :: int where
  "TICK_DT_f64 = (2 * 2 ^ 57 + 30) div 60"

text \<open>
  The three fields the state machine of \<open>tick\<close> reads and writes, and its step. The
  event, \<open>stop\<close> and \<open>respawnAll\<close> do not touch them.
\<close>

record Phase_f64 =
  ph_state :: MatchState
  ph_countdown :: int
  ph_matchTime :: int

definition phase_update_f64 :: "Phase_f64 \<Rightarrow> Phase_f64" where
  "phase_update_f64 s =
     (if ph_state s = Warmup then
        (let c = f64_sub (ph_countdown s) TICK_DT_f64 in
         if c \<le> 0 then s\<lparr>ph_state := Playing, ph_countdown := 0\<rparr>
         else s\<lparr>ph_countdown := c\<rparr>)
      else if ph_state s = Playing then
        (let t = f64_sub (ph_matchTime s) TICK_DT_f64 in
         if t \<le> 0 then s\<lparr>ph_matchTime := t, ph_state := Finished\<rparr>
         else s\<lparr>ph_matchTime := t\<rparr>)
      else s)"

text \<open>The phase fields of a new match after \<open>n\<close> ticks.\<close>

fun phase_f64 :: "nat \<Rightarrow> Phase_f64" where
  "phase_f64 0 = \<lparr>ph_state = Warmup, ph_countdown = 5 * 2 ^ 57, ph_matchTime = 180 * 2 ^ 57\<rparr>"
| "phase_f64 (Suc n) = phase_update_f64 (phase_f64 n)"

section \<open>Concrete states\<close>

text \<open>States and packets that the statements below are evaluated at.\<close>

definition player_at :: "string \<Rightarrow> Team \<Rightarrow> Vector3 \<Rightarrow> ServerPlayer" where
  "player_at sid t q =
     \<lparr>pid = sid, team = t, pos = q, vel = vec 0 0 0, rot = 0, pstate = Alive,
      stamina = 100, holding = None, blocking = False, charge = 0,
      lastInputSeq = 0, inputBuffer = []\<rparr>"

definition ball_at :: "nat \<Rightarrow> Vector3 \<Rightarrow> BallState \<Rightarrow> string option \<Rightarrow> ServerBall" where
  "ball_at i q st ow =
     \<lparr>bid = i, bpos = q, bvel = vec 0 0 0, bstate = st, owner = ow, btype = Normal,
      curveFactor = 0, lastInteraction = 0\<rparr>"

definition packet :: "int \<Rightarrow> InputPacket" where
  "packet n =
     \<lparr>seq = n, in_timestamp = 0, move_x = 0, move_z = 0, aim = vec 0 0 1,
      sprint = False, block = False,
      throw = \<lparr>active = False, t_charge = 0, curve = 0\<rparr>, catching = False\<rparr>"

text \<open>
  Player \<open>a\<close> holds ball 0 and faces along \<open>z\<close>; ball 1, thrown by \<open>b\<close>, is one unit
  in front of \<open>a\<close>.
\<close>

definition holder :: ServerPlayer where
  "holder = (player_at ''a'' Blue (vec 0 1.05 0))\<lparr>holding := Some 0\<rparr>"

definition two_balls :: "(nat \<times> ServerBall) list" where
  "two_balls =
     [(0, ball_at 0 (vec 0 2.05 0) Held (Some ''a'')),
      (1, ball_at 1 (vec 0 1.05 1) Thrown (Some ''b''))]"


text \<open>
  A started match in its last playing tick: one blue player alive, the red player out.
\<close>

definition final_tick_match :: Match where
  "final_tick_match =
     (start 0 1 (new_Match ''m'' Ranked [] (\<lambda>i. 0)))
       \<lparr>players := [(''a'', player_at ''a'' Blue (vec 0 1.05 (- 20))),
                    (''b'', (player_at ''b'' Red (vec 0 1.05 20))\<lparr>pstate := Out\<rparr>)],
        matchState := Playing, matchTime := TICK_DT\<rparr>"


text \<open>A packet that sprints along \<open>x\<close>.\<close>

definition sprint_packet :: "int \<Rightarrow> InputPacket" where
  "sprint_packet n = (packet n)\<lparr>move_x := 1, sprint := True\<rparr>"


text \<open>
  Player \<open>a\<close> stands two units from the wall at \<open>z = 29\<close>, faces it and holds the
  only ball; the buffered packet throws it.
\<close>

definition throw_packet :: "int \<Rightarrow> InputPacket" where
  "throw_packet n = (packet n)\<lparr>throw := \<lparr>active = True, t_charge = 0, curve = 0\<rparr>\<rparr>"

definition flight_match :: Match where
  "flight_match =
     (new_Match ''m'' Casual [] (\<lambda>i. 0))
       \<lparr>players := [(''a'', (player_at ''a'' Blue (vec 0 1.05 27))
                             \<lparr>holding := Some 0, inputBuffer := [throw_packet 1]\<rparr>)],
        balls := [(0, ball_at 0 (vec 0 2.05 27) Held (Some ''a''))],
        matchState := Playing\<rparr>"

definition ball_status :: "Match \<Rightarrow> (BallState \<times> string option) list" where
  "ball_status m = map (\<lambda>(k, b). (bstate b, owner b)) (balls m)"

text \<open>A ball in flight, about to reach the floor.\<close>

definition low_ball :: ServerBall where
  "low_ball = ball_at 0 (vec 0 0.36 0) Thrown (Some ''a'')"






section \<open>Auxiliary facts\<close>

lemmas vec_defs = vec_def add_def sub_def multiplyScalar_def divideScalar_def dot_def
  vlength_def normalize_def distanceTo_def

subsection \<open>\<open>forEach\<close>\<close>

lemma fst_forEach_Cons:
  "fst (forEach f s ((k, a) # rest)) = fst (forEach f (fst (f s a)) rest)"
  by (simp split: prod.splits)

lemma snd_forEach_Cons:
  "snd (forEach f s ((k, a) # rest)) = (k, snd (f s a)) # snd (forEach f (fst (f s a)) rest)"
  by (simp split: prod.splits)

lemma forEach_keys: "map fst (snd (forEach f s xs)) = map fst xs"
proof (induction xs arbitrary: s)
  case Nil
  show ?case by simp
next
  case (Cons ka xs)
  then show ?case by (cases ka) (simp only: snd_forEach_Cons list.map fst_conv)
qed

lemma forEach_length: "length (snd (forEach f s xs)) = length xs"
  using forEach_keys [of f s xs] by (metis length_map)

subsection \<open>The catch loop\<close>

lemma forEach_caught:
  "forEach (catch_ball now) (True, p, es) bs = ((True, p, es), bs)"
  by (induction bs) (auto simp: catch_ball_def)

lemma catch_ball_cases:
  "catch_ball now (False, p, es) b = ((False, p, es), b)
   \<or> (\<exists>p1 es1 b1. catch_ball now (False, p, es) b = ((True, p1, es1), b1))"
  by (simp add: catch_ball_def)

lemma changed_same: "changed bs bs = 0"
  by (induction bs) (simp_all add: changed_def)

lemma changed_Cons:
  "changed (kb # bs) (kb1 # bs1) = (if kb \<noteq> kb1 then 1 else 0) + changed bs bs1"
  by (simp add: changed_def)

lemma forEach_catch_changed:
  "changed bs (snd (forEach (catch_ball now) (c, p, es) bs)) \<le> 1"
proof (induction bs arbitrary: c p es)
  case Nil
  show ?case by (simp add: changed_def)
next
  case (Cons kb bs)
  obtain k b where kb: "kb = (k, b)" by (cases kb)
  show ?case
  proof (cases c)
    case True
    then show ?thesis by (simp add: forEach_caught changed_same)
  next
    case False
    then have c: "c = False" by simp
    from catch_ball_cases [of now p es b] show ?thesis
    proof
      assume same: "catch_ball now (False, p, es) b = ((False, p, es), b)"
      with Cons.IH [of False p es] show ?thesis
        by (simp add: kb c snd_forEach_Cons changed_Cons del: forEach.simps)
    next
      assume "\<exists>p1 es1 b1. catch_ball now (False, p, es) b = ((True, p1, es1), b1)"
      then obtain p1 es1 b1 where "catch_ball now (False, p, es) b = ((True, p1, es1), b1)"
        by blast
      then show ?thesis
        by (simp add: kb c snd_forEach_Cons changed_Cons forEach_caught changed_same
            del: forEach.simps)
    qed
  qed
qed

lemma newly_held_le_changed: "newly_held bs bs1 \<le> changed bs bs1"
proof -
  have "length (filter (\<lambda>((k, b), (k1, b1)). bstate b \<noteq> Held \<and> bstate b1 = Held) xs)
        \<le> length (filter (\<lambda>(kb, kb1). kb \<noteq> kb1) xs)"
    for xs :: "((nat \<times> ServerBall) \<times> (nat \<times> ServerBall)) list"
    by (induction xs) auto
  then show ?thesis by (simp add: newly_held_def changed_def)
qed

subsection \<open>The scan for the interpolation window\<close>

lemma find_window_first:
  "i + 1 < length buf \<Longrightarrow>
   timestamp (buf ! i) \<le> t \<Longrightarrow> t \<le> timestamp (buf ! (i + 1)) \<Longrightarrow>
   (\<forall>j < i. \<not> (timestamp (buf ! j) \<le> t \<and> t \<le> timestamp (buf ! (j + 1)))) \<Longrightarrow>
   find_window t buf = Some (buf ! i, buf ! (i + 1))"
proof (induction t buf arbitrary: i rule: find_window.induct)
  case (1 t a b rest)
  show ?case
  proof (cases i)
    case 0
    with "1.prems" show ?thesis by simp
  next
    case (Suc n)
    with "1.prems"(4) have no0: "\<not> (timestamp a \<le> t \<and> t \<le> timestamp b)"
      by (auto dest: spec [of _ 0])
    have "find_window t (b # rest) = Some ((b # rest) ! n, (b # rest) ! (n + 1))"
    proof (rule "1.IH")
      show "\<not> (timestamp a \<le> t \<and> t \<le> timestamp b)" using no0 .
      show "n + 1 < length (b # rest)" using "1.prems"(1) Suc by simp
      show "timestamp ((b # rest) ! n) \<le> t" using "1.prems"(2) Suc by simp
      show "t \<le> timestamp ((b # rest) ! (n + 1))" using "1.prems"(3) Suc by simp
      show "\<forall>j<n. \<not> (timestamp ((b # rest) ! j) \<le> t \<and> t \<le> timestamp ((b # rest) ! (j + 1)))"
      proof (intro allI impI)
        fix j assume "j < n"
        then have "Suc j < i" using Suc by simp
        with "1.prems"(4)
        have "\<not> (timestamp ((a # b # rest) ! Suc j) \<le> t
                 \<and> t \<le> timestamp ((a # b # rest) ! (Suc j + 1)))"
          by blast
        then show "\<not> (timestamp ((b # rest) ! j) \<le> t \<and> t \<le> timestamp ((b # rest) ! (j + 1)))"
          by simp
      qed
    qed
    with no0 Suc show ?thesis by auto
  qed
next
  case (2 t a)
  then show ?case by simp
next
  case (3 t)
  then show ?case by simp
qed

text \<open>
  In a buffer whose timestamps do not decrease, no pair before a pair that brackets
  \<open>t\<close> strictly brackets \<open>t\<close>.
\<close>

lemma sorted_no_earlier_window:
  assumes "sorted (map timestamp buf)" "i + 1 < length buf" "timestamp (buf ! i) < t"
  shows "\<forall>j < i. \<not> (timestamp (buf ! j) \<le> t \<and> t \<le> timestamp (buf ! (j + 1)))"
proof (intro allI impI)
  fix j assume j: "j < i"
  have "map timestamp buf ! (j + 1) \<le> map timestamp buf ! i"
    using assms(1,2) j by (intro sorted_nth_mono) auto
  then have "timestamp (buf ! (j + 1)) \<le> timestamp (buf ! i)"
    using assms(2) j by simp
  with assms(3) show "\<not> (timestamp (buf ! j) \<le> t \<and> t \<le> timestamp (buf ! (j + 1)))"
    by simp
qed

text \<open>
  The first pair of neighbours that brackets the interpolation time is the one
  returned, and a strict bracket gives a fraction in \<open>[0, 1]\<close>.
\<close>

lemma interpolation_first_window:
  assumes "i + 1 < length buf"
    and "t = interpolationTime now off"
    and "timestamp (buf ! i) < t" and "t < timestamp (buf ! (i + 1))"
    and "\<forall>j < i. \<not> (timestamp (buf ! j) \<le> t \<and> t \<le> timestamp (buf ! (j + 1)))"
  shows "getInterpolatedState now off buf renderTime =
           Between (buf ! i) (buf ! (i + 1))
             (Finite ((t - timestamp (buf ! i)) / (timestamp (buf ! (i + 1)) - timestamp (buf ! i))))
         \<and> max 0 (min 1 ((t - timestamp (buf ! i)) / (timestamp (buf ! (i + 1)) - timestamp (buf ! i))))
             = (t - timestamp (buf ! i)) / (timestamp (buf ! (i + 1)) - timestamp (buf ! i))"
proof -
  have w: "find_window t buf = Some (buf ! i, buf ! (i + 1))"
    using assms by (intro find_window_first) auto
  obtain a b rest where buf: "buf = a # b # rest"
    using assms(1) by (cases buf; cases "tl buf") auto
  have pos: "0 < timestamp (buf ! (i + 1)) - timestamp (buf ! i)"
    using assms(3,4) by simp
  have 1: "getInterpolatedState now off buf renderTime =
           Between (buf ! i) (buf ! (i + 1))
             (Finite ((t - timestamp (buf ! i)) / (timestamp (buf ! (i + 1)) - timestamp (buf ! i))))"
    using w assms(2,3,4) pos unfolding getInterpolatedState_def buf
    by (simp add: js_div_def Let_def)
  have "0 \<le> (t - timestamp (buf ! i)) / (timestamp (buf ! (i + 1)) - timestamp (buf ! i))"
    using assms(3) pos by simp
  moreover have "(t - timestamp (buf ! i)) / (timestamp (buf ! (i + 1)) - timestamp (buf ! i)) \<le> 1"
    using assms(4) pos by simp
  ultimately show ?thesis using 1 by simp
qed


subsection \<open>Unfolding a tick on a concrete state\<close>

lemmas tick_defs = tick_def phase_update_def process_inputs_def simulate_balls_def
  simulate_ball_def free_flight_def gravity_def move_ball_def floor_bounce_def
  wall_bounce_x_def wall_bounce_z_def store_history_def broadcastSnapshot_def
  drain_player_def drain.simps stop_def TICK_DT_def TICK_RATE_def HISTORY_SIZE_def

lemma upt6: "[0..<6] = [0, 1, 2, 3, 4, 5]"
  by (simp add: upt_rec)

lemma sqrt_gt_iff: "0 \<le> c \<Longrightarrow> (c < sqrt a) = (c * c < a)"
proof -
  assume c: "0 \<le> c"
  then have "sqrt (c * c) = c" by simp
  then have "(c < sqrt a) = (sqrt (c * c) < sqrt a)" by simp
  also have "\<dots> = (c * c < a)" by (rule real_sqrt_less_iff)
  finally show ?thesis .
qed

lemma sqrt_less_iff: "0 \<le> c \<Longrightarrow> (sqrt a < c) = (a < c * c)"
proof -
  assume c: "0 \<le> c"
  then have "sqrt (c * c) = c" by simp
  then have "(sqrt a < c) = (sqrt a < sqrt (c * c))" by simp
  also have "\<dots> = (a < c * c)" by (rule real_sqrt_less_iff)
  finally show ?thesis .
qed

lemmas flight_defs = flight_match_def new_Match_def player_at_def ball_at_def
  throw_packet_def packet_def ball_status_def apply_input_def move_player_def
  update_stamina_def throwBall_def throw_speed_def atan2_def checkHits_def hit_player_def


subsection \<open>Invariants through \<open>forEach\<close> and the maps\<close>

lemma forEach_elems:
  assumes "\<And>s a. P a \<Longrightarrow> P (snd (f s a))"
  shows "list_all (\<lambda>(k, a). P a) xs \<Longrightarrow> list_all (\<lambda>(k, a). P a) (snd (forEach f s xs))"
proof (induction xs arbitrary: s)
  case Nil
  show ?case by simp
next
  case (Cons ka xs)
  obtain k a where ka: "ka = (k, a)" by (cases ka)
  from Cons.prems have "P a" and rest: "list_all (\<lambda>(k, a). P a) xs"
    by (simp_all add: ka)
  from assms [OF \<open>P a\<close>] Cons.IH [OF rest] show ?case
    by (simp add: ka snd_forEach_Cons del: forEach.simps)
qed

lemma forEach_state:
  assumes "\<And>s a. Q s \<Longrightarrow> Q (fst (f s a))"
  shows "Q s \<Longrightarrow> Q (fst (forEach f s xs))"
proof (induction xs arbitrary: s)
  case Nil
  then show ?case by simp
next
  case (Cons ka xs)
  obtain k a where ka: "ka = (k, a)" by (cases ka)
  from Cons.IH [OF assms [OF Cons.prems]] show ?case
    by (simp add: ka fst_forEach_Cons del: forEach.simps)
qed


lemma list_all_update:
  "list_all (\<lambda>(k, a). P a) xs \<Longrightarrow> P v \<Longrightarrow> list_all (\<lambda>(k, a). P a) (AList.update key v xs)"
  by (induction xs) auto


lemma list_all_map_of:
  "list_all (\<lambda>(k, a). P a) xs \<Longrightarrow> map_of xs key = Some v \<Longrightarrow> P v"
  by (induction xs) (auto split: if_splits)

subsection \<open>What the input loop does to the player\<close>








subsection \<open>Every ball that is not idle has an owner\<close>

lemma throwBall_balls:
  assumes "list_all (\<lambda>(k, b). ball_inv b) bs"
  shows "list_all (\<lambda>(k, b). ball_inv b) (snd (throwBall p ti bs))"
proof (cases "holding p")
  case None
  with assms show ?thesis by (simp add: throwBall_def)
next
  case (Some h)
  show ?thesis
  proof (cases "map_of bs h")
    case None
    with Some assms show ?thesis by (simp add: throwBall_def)
  next
    case (Some b)
    with assms have "ball_inv b"
      using list_all_map_of [of ball_inv bs h b] by simp
    then have "ball_inv (b\<lparr>bstate := Thrown, owner := Some (pid p),
                           bpos := q, bvel := v, btype := ty, curveFactor := cf\<rparr>)" for q v ty cf
      by (simp add: ball_inv_def ball_owned_def)
    with assms Some \<open>holding p = Some h\<close> show ?thesis
      by (simp add: throwBall_def Let_def list_all_update)
  qed
qed

lemma catch_ball_balls: "ball_inv b \<Longrightarrow> ball_inv (snd (catch_ball now s b))"
  by (auto simp: catch_ball_def ball_inv_def ball_owned_def split_beta)

lemma tryCatch_balls:
  "list_all (\<lambda>(k, b). ball_inv b) bs \<Longrightarrow>
   list_all (\<lambda>(k, b). ball_inv b) (fst (snd (tryCatch now p bs es)))"
  using forEach_elems [of ball_inv "catch_ball now" bs "(False, p, es)", OF catch_ball_balls]
  by (simp add: tryCatch_def split_beta)

lemma apply_input_balls:
  assumes "list_all (\<lambda>(k, b). ball_inv b) (fst (snd s))"
  shows "list_all (\<lambda>(k, b). ball_inv b) (fst (snd (apply_input now input s)))"
proof -
  obtain p bs es where s: "s = (p, bs, es)" by (cases s)
  from assms s have bs: "list_all (\<lambda>(k, b). ball_inv b) bs" by simp
  show ?thesis
    using bs throwBall_balls [OF bs] tryCatch_balls [OF bs] tryCatch_balls [OF throwBall_balls [OF bs]]
    by (auto simp: s apply_input_def Let_def split_beta)
qed

lemma drain_balls:
  "list_all (\<lambda>(k, b). ball_inv b) (fst (snd s)) \<Longrightarrow>
   list_all (\<lambda>(k, b). ball_inv b) (fst (snd (drain now s)))"
proof (induction now s rule: drain.induct)
  case (1 now p bs es)
  show ?case
  proof (cases "inputBuffer p")
    case Nil
    with "1.prems" show ?thesis by (simp add: drain.simps)
  next
    case (Cons input rest)
    from "1.prems"
    have "list_all (\<lambda>(k, b). ball_inv b)
            (fst (snd (apply_input now input (p\<lparr>inputBuffer := rest\<rparr>, bs, es))))"
      by (intro apply_input_balls) simp
    with "1.IH" [OF Cons] Cons show ?thesis by (simp add: drain.simps)
  qed
qed

lemma drain_player_balls:
  "list_all (\<lambda>(k, b). ball_inv b) (fst s) \<Longrightarrow>
   list_all (\<lambda>(k, b). ball_inv b) (fst (fst (drain_player now s p)))"
  using drain_balls [of "(p, fst s, snd s)" now]
  by (cases s) (simp add: drain_player_def split_beta)

lemma process_inputs_balls:
  "list_all (\<lambda>(k, b). ball_inv b) (balls m) \<Longrightarrow>
   list_all (\<lambda>(k, b). ball_inv b) (balls (process_inputs now m))"
  using forEach_state [of "\<lambda>s. list_all (\<lambda>(k, b). ball_inv b) (fst s)"
      "drain_player now" "(balls m, events m)" "players m", OF drain_player_balls]
  by (simp add: process_inputs_def split_beta)

lemma gravity_inv: "ball_inv b \<Longrightarrow> ball_inv (gravity b)"
  by (simp add: ball_inv_def ball_owned_def gravity_def)

lemma move_ball_inv: "ball_inv b \<Longrightarrow> ball_inv (move_ball b)"
  by (simp add: ball_inv_def ball_owned_def move_ball_def)

lemma floor_bounce_inv: "ball_inv b \<Longrightarrow> ball_inv (floor_bounce b)"
  by (simp add: ball_inv_def ball_owned_def floor_bounce_def Let_def)

lemma wall_bounce_x_inv: "ball_inv b \<Longrightarrow> ball_inv (wall_bounce_x b)"
  by (simp add: ball_inv_def ball_owned_def wall_bounce_x_def)

lemma wall_bounce_z_inv: "ball_inv b \<Longrightarrow> ball_inv (wall_bounce_z b)"
  by (simp add: ball_inv_def ball_owned_def wall_bounce_z_def)

lemma free_flight_balls: "ball_inv b \<Longrightarrow> ball_inv (free_flight b)"
  unfolding free_flight_def
  by (intro wall_bounce_z_inv wall_bounce_x_inv floor_bounce_inv move_ball_inv gravity_inv)

lemma hit_player_ball: "ball_inv (fst s) \<Longrightarrow> ball_inv (fst (fst (hit_player now s p)))"
  by (simp add: hit_player_def ball_inv_def ball_owned_def split_beta)

lemma checkHits_ball: "ball_inv b \<Longrightarrow> ball_inv (fst (checkHits now b ps es))"
  using forEach_state [of "\<lambda>s. ball_inv (fst s)" "hit_player now" "(b, es)" ps,
      OF hit_player_ball]
  by (simp add: checkHits_def split_beta)

lemma simulate_ball_ball: "ball_inv b \<Longrightarrow> ball_inv (snd (simulate_ball now s b))"
  using checkHits_ball [OF free_flight_balls, of b now "fst s" "snd s"] free_flight_balls [of b]
  by (auto simp: simulate_ball_def split_beta Let_def ball_inv_def ball_owned_def
      split: option.splits)

lemma simulate_balls_balls:
  "list_all (\<lambda>(k, b). ball_inv b) (balls m) \<Longrightarrow>
   list_all (\<lambda>(k, b). ball_inv b) (balls (simulate_balls now m))"
  using forEach_elems [of ball_inv "simulate_ball now" "balls m" "(players m, events m)",
      OF simulate_ball_ball]
  by (simp add: simulate_balls_def split_beta)

lemma list_all_map_snd:
  "(\<And>a. P a \<Longrightarrow> P (f a)) \<Longrightarrow> list_all (\<lambda>(k, a). P a) xs \<Longrightarrow>
   list_all (\<lambda>(k, a). P a) (map (\<lambda>(k, a). (k, f a)) xs)"
  by (induction xs) auto

lemma respawn_ball_inv: "ball_inv b \<Longrightarrow> ball_inv (respawn_ball b)"
  by (simp add: ball_inv_def ball_owned_def respawn_ball_def)

lemma drop_ball_inv: "ball_inv b \<Longrightarrow> ball_inv (drop_ball sid b)"
  by (simp add: ball_inv_def ball_owned_def drop_ball_def)

lemma phase_update_balls:
  "list_all (\<lambda>(k, b). ball_inv b) (balls m) \<Longrightarrow>
   list_all (\<lambda>(k, b). ball_inv b) (balls (phase_update rnd now m))"
  using list_all_map_snd [of ball_inv respawn_ball "balls m", OF respawn_ball_inv]
  by (simp add: phase_update_def respawnAll_def stop_def Let_def)

lemma tick_balls:
  assumes "list_all (\<lambda>(k, b). ball_inv b) (balls m)"
  shows "list_all (\<lambda>(k, b). ball_inv b) (balls (tick rnd now m))"
proof -
  from assms have "list_all (\<lambda>(k, b). ball_inv b) (balls (m\<lparr>tickCount := tickCount m + 1\<rparr>))"
    by simp
  then have "list_all (\<lambda>(k, b). ball_inv b)
          (balls (simulate_balls now (process_inputs now
             (phase_update rnd now (m\<lparr>tickCount := tickCount m + 1\<rparr>)))))"
    by (intro simulate_balls_balls process_inputs_balls phase_update_balls)
  then show ?thesis
    by (simp add: tick_def Let_def store_history_def broadcastSnapshot_def)
qed

lemma removePlayer_balls:
  "list_all (\<lambda>(k, b). ball_inv b) (balls m) \<Longrightarrow>
   list_all (\<lambda>(k, b). ball_inv b) (balls (removePlayer now sid m))"
  using list_all_map_snd [of ball_inv "drop_ball sid" "balls m", OF drop_ball_inv]
  by (simp add: removePlayer_def Let_def split: option.splits)

lemma on_input_balls: "balls (on_input sid pk m) = balls m"
  by (simp add: on_input_def split: option.splits)

lemma new_Match_balls: "list_all (\<lambda>(k, b). ball_inv b) (balls (new_Match i md sockets rnd))"
  by (simp add: new_Match_def upt6 new_ball_def ball_inv_def ball_owned_def)

lemma exec_balls:
  "list_all (\<lambda>(k, b). ball_inv b) (balls m) \<Longrightarrow>
   list_all (\<lambda>(k, b). ball_inv b) (balls (exec m a))"
  by (cases a) (simp_all add: tick_balls on_input_balls removePlayer_balls)

lemma run_balls:
  "list_all (\<lambda>(k, b). ball_inv b) (balls m) \<Longrightarrow>
   list_all (\<lambda>(k, b). ball_inv b) (balls (run m acts))"
  unfolding run_def
  by (induction acts arbitrary: m) (simp_all add: exec_balls)

lemma ball_inv_owned:
  "list_all (\<lambda>(k, b). ball_inv b) bs \<Longrightarrow> list_all (\<lambda>(k, b). ball_owned b) bs"
  by (induction bs) (auto simp: ball_inv_def)

lemma floor_ends_flight:
  assumes "bstate b = Thrown" and "vec_y (bpos (move_ball (gravity b))) < 0.35"
  shows "bstate (snd (simulate_ball now s b)) = Idle \<and> owner (snd (simulate_ball now s b)) = None"
proof -
  from assms have "bstate (floor_bounce (move_ball (gravity b))) = Idle"
    and "owner (floor_bounce (move_ball (gravity b))) = None"
    by (simp_all add: floor_bounce_def Let_def move_ball_def gravity_def)
  then have "bstate (free_flight b) = Idle \<and> owner (free_flight b) = None"
    by (simp add: free_flight_def wall_bounce_x_def wall_bounce_z_def)
  with assms(1) show ?thesis
    by (simp add: simulate_ball_def split_beta Let_def)
qed


subsection \<open>The input buffer\<close>






































subsection \<open>Evaluating the binary64 countdown\<close>

lemma ulp_numeral:
  "ulp (numeral k) = (if numeral k < (2::nat) ^ 53 then 1 else 2 * ulp (numeral k div 2))"
  by (rule ulp.simps)

lemma round53_numeral:
  "round53 (numeral k) =
     (let a = numeral k; u = ulp a; q = a div u; r = a mod u;
          q1 = (if 2 * r > u \<or> (2 * r = u \<and> odd q) then q + 1 else q)
      in int (q1 * u))"
  by (simp add: round53_def Let_def)

lemma round53_neg_numeral: "round53 (- numeral k) = - round53 (numeral k)"
  by (simp add: round53_def Let_def)

lemma round53_0: "round53 0 = 0"
  by (simp add: round53_def Let_def)

lemma TICK_DT_f64_value: "TICK_DT_f64 = 4803839602528529"
  by (simp add: TICK_DT_f64_def)

lemma phase_f64_numeral: "phase_f64 (numeral k) = phase_update_f64 (phase_f64 (pred_numeral k))"
  by (simp add: numeral_eq_Suc)

lemma warmup_step_f64:
  "phase_update_f64 \<lparr>ph_state = Warmup, ph_countdown = numeral c, ph_matchTime = t\<rparr> =
     (let c1 = round53 (numeral c - 4803839602528529) in
      if c1 \<le> 0 then \<lparr>ph_state = Playing, ph_countdown = 0, ph_matchTime = t\<rparr>
      else \<lparr>ph_state = Warmup, ph_countdown = c1, ph_matchTime = t\<rparr>)"
  by (simp add: phase_update_f64_def f64_sub_def TICK_DT_f64_value Let_def)

lemmas f64_eval = warmup_step_f64 round53_numeral round53_neg_numeral round53_0 ulp_numeral

lemma phase_f64_149:
  "phase_f64 149 =
     \<lparr>ph_state = Warmup, ph_countdown = 4803839602529647, ph_matchTime = 180 * 2 ^ 57\<rparr>"
  by (simp add: phase_f64_numeral f64_eval)

lemma phase_f64_150:
  "phase_f64 150 = \<lparr>ph_state = Warmup, ph_countdown = 1118, ph_matchTime = 180 * 2 ^ 57\<rparr>"
proof -
  have "phase_f64 150 = phase_update_f64 (phase_f64 149)"
    by (simp only: phase_f64_numeral pred_numeral_simps BitM.simps)
  also have "\<dots> = \<lparr>ph_state = Warmup, ph_countdown = 1118, ph_matchTime = 180 * 2 ^ 57\<rparr>"
    unfolding phase_f64_149 by (simp add: f64_eval)
  finally show ?thesis .
qed

lemma phase_f64_151:
  "phase_f64 151 = \<lparr>ph_state = Playing, ph_countdown = 0, ph_matchTime = 180 * 2 ^ 57\<rparr>"
proof -
  have "phase_f64 151 = phase_update_f64 (phase_f64 150)"
    by (simp only: phase_f64_numeral pred_numeral_simps BitM.simps)
  also have "\<dots> = \<lparr>ph_state = Playing, ph_countdown = 0, ph_matchTime = 180 * 2 ^ 57\<rparr>"
    unfolding phase_f64_150 by (simp add: f64_eval)
  finally show ?thesis .
qed


subsection \<open>The movement step on finite numbers\<close>

text \<open>
  On finite numbers the movement step on JavaScript numbers is \<open>move_player\<close>.
\<close>

lemmas js_defs = js_move_def js_normalize_def js_length_def js_divideScalar_def
  js_multiplyScalar_def js_vec_add_def js_vec_def js_of_def js_in_arena_def
  signed_infinity_def js_div_def

lemma js_length_of: "js_length (js_of v) = Finite (vlength v)"
proof -
  have "0 \<le> vec_x v * vec_x v + vec_y v * vec_y v + vec_z v * vec_z v"
    by (intro add_nonneg_nonneg) simp_all
  then show ?thesis
    by (simp add: js_length_def js_of_def js_vec_def vlength_def not_less)
qed

lemma js_multiplyScalar_of: "js_multiplyScalar (js_of v) (Finite s) = js_of (multiplyScalar v s)"
  by (simp add: js_multiplyScalar_def js_of_def js_vec_def multiplyScalar_def vec_def)

lemma js_normalize_of: "js_normalize (js_of v) = js_of (normalize v)"
  by (simp add: js_normalize_def js_length_of js_divideScalar_def js_div_def
      js_multiplyScalar_of normalize_def divideScalar_def)

lemma js_clamp_of:
  "js_max (Finite (- 30)) (js_min (Finite 30) (Finite x)) = Finite (max (- 30) (min 30 x))"
  by (simp add: max_def min_def)

lemma js_move_finite:
  "js_move (Finite (move_x input)) (Finite (move_z input)) (sprint input \<and> stamina p > 0)
     (js_of (pos p), js_of (vel p))
   = (js_of (pos (move_player input p)), js_of (vel (move_player input p)))"
proof -
  have v: "js_vec (Finite (move_x input)) (Finite 0) (Finite (move_z input))
             = js_of (vec (move_x input) 0 (move_z input))"
    by (simp add: js_of_def vec_def)
  define d where "d = normalize (vec (move_x input) 0 (move_z input))"
  define s where "s = (if sprint input \<and> stamina p > 0 then 15 else 8 :: real)"
  show ?thesis
    unfolding js_move_def move_player_def v js_normalize_of
    by (simp add: Let_def d_def [symmetric] s_def [symmetric] js_clamp_of js_of_def js_vec_def
        js_vec_add_def js_multiplyScalar_def add_def multiplyScalar_def vec_def)
qed


section \<open>The claims\<close>


subsection \<open>C1: the end of the match\<close>

text \<open>
  C1. When the remaining time reaches zero the match is claimed to emit a win event
  whose winner the tie-break decides. In the last tick of a match with one blue
  player alive and no red one, the match becomes finished and the timer is cleared,
  but the event names \<open>draw\<close>, where the tie-break names blue.
\<close>

theorem win_event_is_draw:
  "matchState (tick rnd now final_tick_match) = Finished
   \<and> events (tick rnd now final_tick_match) = [Win ''draw'' now]
   \<and> timerRunning final_tick_match
   \<and> \<not> timerRunning (tick rnd now final_tick_match)
   \<and> survivors Blue (players final_tick_match) = 1
   \<and> survivors Red (players final_tick_match) = 0
   \<and> tie_break_winner (players final_tick_match) = ''blue''"
  by (simp add: final_tick_match_def start_def new_Match_def new_ball_def player_at_def
      tick_defs vec_defs upt6 survivors_def tie_break_winner_def)


subsection \<open>C2: the client lagging behind\<close>

text \<open>
  C2. With every buffered snapshot older than the interpolation time, the query is
  claimed to return the newest snapshot. At a buffer of three snapshots with
  timestamps 10, 20 and 30 and the interpolation time 100 it returns the second one:
  the scan finds no window, \<open>next\<close> is still \<open>snapshots[1]\<close>, and that is what the
  lagging branch returns. The newest snapshot of the buffer is the one of time 30.
\<close>

theorem lagging_returns_second_snapshot:
  "getInterpolatedState 200 0 [snapshot_at 10, snapshot_at 20, snapshot_at 30] 100
     = Single (snapshot_at 20)
   \<and> last [snapshot_at 10, snapshot_at 20, snapshot_at 30] = snapshot_at 30
   \<and> snapshot_at 20 \<noteq> snapshot_at 30
   \<and> list_all (\<lambda>s. timestamp s < interpolationTime 200 0)
        [snapshot_at 10, snapshot_at 20, snapshot_at 30]"
  by (simp add: getInterpolatedState_def interpolationTime_def snapshot_at_def js_div_def)


subsection \<open>C3: the interpolation fraction\<close>

text \<open>
  C3. In a buffer in the order of its timestamps, let the neighbours at positions \<open>i\<close>
  and \<open>i + 1\<close> have timestamps \<open>T1 < t < T2\<close> for the interpolation time \<open>t\<close>. Then
  the query returns that pair as \<open>prev\<close> and \<open>next\<close>, with the fraction
  \<open>(t - T1) / (T2 - T1)\<close>; the fraction lies in \<open>[0, 1]\<close>, so it is its own clamp
  to \<open>[0, 1]\<close>.
\<close>

theorem interpolation_bracketing_pair:
  assumes "sorted (map timestamp buf)"
    and "i + 1 < length buf"
    and "t = interpolationTime now off"
    and "timestamp (buf ! i) < t" and "t < timestamp (buf ! (i + 1))"
  shows "getInterpolatedState now off buf renderTime =
           Between (buf ! i) (buf ! (i + 1))
             (Finite ((t - timestamp (buf ! i)) / (timestamp (buf ! (i + 1)) - timestamp (buf ! i))))
         \<and> max 0 (min 1 ((t - timestamp (buf ! i)) / (timestamp (buf ! (i + 1)) - timestamp (buf ! i))))
             = (t - timestamp (buf ! i)) / (timestamp (buf ! (i + 1)) - timestamp (buf ! i))"
  using assms(2-5) sorted_no_earlier_window [OF assms(1,2,4)]
  by (rule interpolation_first_window)

text \<open>
  The theorem at the buffer of timestamps 0, 10 and 20 and the interpolation time 15:
  the second pair is returned, with the fraction one half.
\<close>

theorem interpolation_bracketing_pair_witness:
  "sorted (map timestamp [snapshot_at 0, snapshot_at 10, snapshot_at 20])
   \<and> timestamp ([snapshot_at 0, snapshot_at 10, snapshot_at 20] ! 1) < interpolationTime 115 0
   \<and> interpolationTime 115 0 < timestamp ([snapshot_at 0, snapshot_at 10, snapshot_at 20] ! 2)
   \<and> getInterpolatedState 115 0 [snapshot_at 0, snapshot_at 10, snapshot_at 20] 15
       = Between (snapshot_at 10) (snapshot_at 20) (Finite (1 / 2))"
  using interpolation_bracketing_pair
    [of "[snapshot_at 0, snapshot_at 10, snapshot_at 20]" 1 15 115 0 15]
  by (simp add: interpolationTime_def snapshot_at_def)


subsection \<open>C4: stamina and position stay in their bounds\<close>

text \<open>
  C4. The position of a player is claimed to be within the arena bounds after every
  tick. A packet whose \<open>move.x\<close> is infinite is buffered like any other. For a player
  at the spawn position \<open>(0, 1.05, -20)\<close> the movement step then gives the position
  and the velocity the \<open>x\<close> component NaN, which the clamp returns as it is: the
  position is not within the bounds. A later packet with a finite \<open>move\<close> leaves the
  \<open>x\<close> component of the position NaN.
\<close>

theorem infinite_move_not_clamped:
  "js_move PosInfinity (Finite 0) False (js_of (vec 0 1.05 (- 20)), js_of (vec 0 0 0))
     = (js_vec NaN (Finite 1.05) (Finite (- 20)), js_vec NaN (Finite 0) (Finite 0))
   \<and> js_in_arena (js_vec NaN (Finite 1.05) (Finite (- 20))) = False
   \<and> js_move (Finite 0) (Finite 1) False
        (js_vec NaN (Finite 1.05) (Finite (- 20)), js_vec NaN (Finite 0) (Finite 0))
      = (js_vec NaN (Finite 1.05) (Finite (- 296 / 15)), js_vec (Finite 0) (Finite 0) (Finite 8))"
  by (simp add: js_defs Let_def vec_def TICK_DT_def TICK_RATE_def)


subsection \<open>C5: holding references\<close>

text \<open>
  C5. The catch operation is claimed to keep the held-ball references consistent, also
  when the catching player already holds a ball. Player \<open>a\<close> holds ball 0 and catches
  ball 1 in flight: afterwards both balls are held with owner \<open>a\<close>, while \<open>a\<close>'s
  reference names ball 1 only.
\<close>

theorem catch_while_holding:
  "tryCatch now holder two_balls [] =
     (holder\<lparr>holding := Some 1\<rparr>,
      [(0, ball_at 0 (vec 0 2.05 0) Held (Some ''a'')),
       (1, ball_at 1 (vec 0 1.05 1) Held (Some ''a''))],
      [Catch ''a'' 1 now])"
  by (simp add: tryCatch_def catch_ball_def holder_def two_balls_def player_at_def
      ball_at_def vec_defs)


subsection \<open>C6: owners of balls across ticks\<close>

text \<open>
  C6, as amended. In every state a match reaches from its construction, a ball that
  is held has an owner, and so has a ball in flight: the thrower stays the owner for
  as long as the flight lasts. A flight that ends on the floor leaves the ball idle
  with no owner within that tick.
\<close>

theorem held_and_flying_balls_have_owner:
  "balls_owned (run (new_Match i md sockets rnd) acts)
   \<and> (bstate b = Thrown \<longrightarrow> vec_y (bpos (move_ball (gravity b))) < 0.35 \<longrightarrow>
        bstate (snd (simulate_ball now s b)) = Idle
        \<and> owner (snd (simulate_ball now s b)) = None)"
  using ball_inv_owned [OF run_balls [OF new_Match_balls]] floor_ends_flight
  by (simp add: balls_owned_def)

text \<open>
  The theorem at a match of two players after a packet and a tick, and at a ball in
  flight one step above the floor.
\<close>

theorem held_and_flying_balls_have_owner_witness:
  "balls_owned (run (new_Match ''m'' Casual [''a'', ''b''] (\<lambda>i. 1 / 2))
      [Input ''a'' (sprint_packet 1), Tick (\<lambda>i. 1 / 2) 0])
   \<and> bstate low_ball = Thrown
   \<and> vec_y (bpos (move_ball (gravity low_ball))) < 0.35
   \<and> bstate (snd (simulate_ball 0 ([], []) low_ball)) = Idle
   \<and> owner (snd (simulate_ball 0 ([], []) low_ball)) = None"
  using held_and_flying_balls_have_owner [of "''m''" Casual "[''a'', ''b'']" "\<lambda>i. 1 / 2"
      "[Input ''a'' (sprint_packet 1), Tick (\<lambda>i. 1 / 2) 0]" low_ball 0 "([], [])"]
  by (simp add: low_ball_def ball_at_def move_ball_def gravity_def vec_defs TICK_DT_def
      TICK_RATE_def)

text \<open>
  C6 as stated fails on the flight of a ball thrown at the wall. The first tick
  releases the ball; after that tick and after the next one it is in flight with
  owner \<open>a\<close>. The third tick bounces it off the wall, and after that tick and the
  fourth one it is idle, still with owner \<open>a\<close>.
\<close>

theorem owner_persists_counterexample:
  "ball_status flight_match = [(Held, Some ''a'')]
   \<and> ball_status (tick (\<lambda>i. 0) 0 flight_match) = [(Thrown, Some ''a'')]
   \<and> ball_status (tick (\<lambda>i. 0) 0 (tick (\<lambda>i. 0) 0 flight_match)) = [(Thrown, Some ''a'')]
   \<and> ball_status (tick (\<lambda>i. 0) 0 (tick (\<lambda>i. 0) 0 (tick (\<lambda>i. 0) 0 flight_match)))
       = [(Idle, Some ''a'')]
   \<and> ball_status (tick (\<lambda>i. 0) 0 (tick (\<lambda>i. 0) 0 (tick (\<lambda>i. 0) 0
        (tick (\<lambda>i. 0) 0 flight_match)))) = [(Idle, Some ''a'')]"
  by (simp add: flight_defs tick_defs vec_defs sqrt_gt_iff sqrt_less_iff)


subsection \<open>C7: consumption of input packets\<close>





subsection \<open>C8: the speed of a throw\<close>

text \<open>
  C8. The speed of a throw is claimed to stay within 25 to 50 for any charge. At the
  charge 10 the throw has speed 275, and the ball leaves with the velocity
  \<open>(0, 52, 275)\<close>.
\<close>

theorem throw_charge_not_clamped:
  "throwBall holder \<lparr>active = True, t_charge = 10, curve = 0\<rparr> two_balls =
     (holder\<lparr>holding := None\<rparr>,
      [(0, (ball_at 0 (vec 0 2.55 0) Thrown (Some ''a''))\<lparr>bvel := vec 0 52 275\<rparr>),
       (1, ball_at 1 (vec 0 1.05 1) Thrown (Some ''b''))])
   \<and> throw_speed \<lparr>active = True, t_charge = 10, curve = 0\<rparr> = 275"
  by (simp add: throwBall_def throw_speed_def holder_def two_balls_def player_at_def
      ball_at_def vec_defs)


subsection \<open>C9: the end of the warm-up\<close>

text \<open>
  C9. After exactly 150 ticks the match is claimed to be playing. In binary64 the
  150 subtractions of \<open>TICK_DT\<close> from 5 leave \<open>1118 \<cdot> 2^-57\<close>, which is above zero:
  after 150 ticks the match is still in the warm-up, and it is the tick after, the
  151st, that makes it playing.
\<close>

theorem warmup_lasts_151_ticks_in_binary64:
  "ph_state (phase_f64 150) = Warmup
   \<and> ph_countdown (phase_f64 150) = 1118
   \<and> ph_state (phase_f64 151) = Playing"
  by (simp add: phase_f64_150 phase_f64_151)


subsection \<open>C10: one ball per catch attempt\<close>

text \<open>
  C10. In one call of the catch operation at most one ball changes its state to held;
  indeed at most one ball changes at all, and the map keeps its keys.
\<close>

theorem tryCatch_at_most_one:
  "newly_held bs (fst (snd (tryCatch now p bs es))) \<le> 1
   \<and> changed bs (fst (snd (tryCatch now p bs es))) \<le> 1
   \<and> map fst (fst (snd (tryCatch now p bs es))) = map fst bs"
proof -
  have eq: "fst (snd (tryCatch now p bs es)) = snd (forEach (catch_ball now) (False, p, es) bs)"
    by (simp add: tryCatch_def split: prod.splits)
  have c: "changed bs (fst (snd (tryCatch now p bs es))) \<le> 1"
    unfolding eq by (rule forEach_catch_changed)
  moreover have "newly_held bs (fst (snd (tryCatch now p bs es))) \<le> 1"
    using newly_held_le_changed [of bs "fst (snd (tryCatch now p bs es))"] c by linarith
  moreover have "map fst (fst (snd (tryCatch now p bs es))) = map fst bs"
    unfolding eq by (rule forEach_keys)
  ultimately show ?thesis by blast
qed

end
